theory Spec2Isabelle
  imports Main "HOL-Library.Word"
begin

unbundle bit_operations_syntax

section \<open>Python values\<close>

text \<open>
  The handlers of \<^verbatim>\<open>weather/main.py\<close> work on whatever \<^verbatim>\<open>response.json()\<close>
  hands them: \<^verbatim>\<open>None\<close>, a bool, an int, a float, a str, a list or a dict with str
  keys. A str is kept as the bytes of its UTF-8 encoding (concatenation and
  \<^verbatim>\<open>join\<close> commute with the encoding), a float as the 64 bits of its IEEE-754
  double, and a dict as its items in insertion order, looked up with \<open>map_of\<close>
  (the keys of a Python dict are distinct).
\<close>

type_synonym pyfloat = "64 word"

datatype pyval =
    PNone
  | PBool bool
  | PInt int
  | PFloat pyfloat
  | PStr string
  | PList "pyval list"
  | PDict "(string \<times> pyval) list"

text \<open>The exceptions the handlers can let escape.\<close>

datatype py_error =
    KeyError
  | TypeError
  | AttributeError
  | DictSliceError
    \<comment> \<open>a dict subscripted with a slice: TypeError (unhashable) before Python 3.12,
        KeyError from 3.12 on\<close>

definition bind_err :: "'e + 'a \<Rightarrow> ('a \<Rightarrow> 'e + 'b) \<Rightarrow> 'e + 'b" where
  "bind_err m f = (case m of Inl e \<Rightarrow> Inl e | Inr x \<Rightarrow> f x)"

text \<open>Truth value testing (\<^verbatim>\<open>not data\<close>): a float is false when it is \<open>+0.0\<close> or \<open>-0.0\<close>.\<close>

fun truthy :: "pyval \<Rightarrow> bool" where
  "truthy PNone = False"
| "truthy (PBool b) = b"
| "truthy (PInt i) = (i \<noteq> 0)"
| "truthy (PFloat x) = (x AND mask 63 \<noteq> 0)"
| "truthy (PStr s) = (s \<noteq> [])"
| "truthy (PList xs) = (xs \<noteq> [])"
| "truthy (PDict kvs) = (kvs \<noteq> [])"

fun starts_with :: "string \<Rightarrow> string \<Rightarrow> bool" where
  "starts_with [] s = True"
| "starts_with (p # ps) [] = False"
| "starts_with (p # ps) (c # cs) = (p = c \<and> starts_with ps cs)"

fun contains_str :: "string \<Rightarrow> string \<Rightarrow> bool" where
  "contains_str sub [] = (sub = [])"
| "contains_str sub (c # cs) = (starts_with sub (c # cs) \<or> contains_str sub cs)"

text \<open>
  \<^verbatim>\<open>key in v\<close> for a str \<open>key\<close>: key membership in a dict, an equal element in a
  list, a substring of a str; the other values are not iterable.
\<close>

fun py_in :: "string \<Rightarrow> pyval \<Rightarrow> py_error + bool" where
  "py_in key (PDict kvs) = Inr (key \<in> set (map fst kvs))"
| "py_in key (PList xs) = Inr (PStr key \<in> set xs)"
| "py_in key (PStr s) = Inr (contains_str key s)"
| "py_in key v = Inl TypeError"

text \<open>\<^verbatim>\<open>v[key]\<close> for a str \<open>key\<close>: only a dict can be subscripted with a str.\<close>

fun py_getitem :: "pyval \<Rightarrow> string \<Rightarrow> py_error + pyval" where
  "py_getitem (PDict kvs) key =
     (case map_of kvs key of None \<Rightarrow> Inl KeyError | Some v \<Rightarrow> Inr v)"
| "py_getitem v key = Inl TypeError"

text \<open>\<^verbatim>\<open>v[k1][k2]\<close>, evaluated left to right.\<close>

definition py_getitem2 :: "pyval \<Rightarrow> string \<Rightarrow> string \<Rightarrow> py_error + pyval" where
  "py_getitem2 v k1 k2 = bind_err (py_getitem v k1) (\<lambda>inner. py_getitem inner k2)"

text \<open>\<^verbatim>\<open>v.get(key, default)\<close>: only a dict has the method.\<close>

fun py_get :: "pyval \<Rightarrow> string \<Rightarrow> pyval \<Rightarrow> py_error + pyval" where
  "py_get (PDict kvs) key dflt =
     Inr (case map_of kvs key of None \<Rightarrow> dflt | Some v \<Rightarrow> v)"
| "py_get v key dflt = Inl AttributeError"

text \<open>\<^verbatim>\<open>v[:5]\<close>.\<close>

fun py_slice5 :: "pyval \<Rightarrow> py_error + pyval" where
  "py_slice5 (PList xs) = Inr (PList (take 5 xs))"
| "py_slice5 (PStr s) = Inr (PStr (take 5 s))"
| "py_slice5 (PDict kvs) = Inl DictSliceError"
| "py_slice5 v = Inl TypeError"

text \<open>
  The values \<^verbatim>\<open>for x in v\<close> visits: the elements of a list, the keys of a dict,
  the one-character strings of a str (a character outside ASCII is several
  bytes here; the handlers only subscript such an element, which raises
  whatever it holds).
\<close>

fun py_iter :: "pyval \<Rightarrow> py_error + pyval list" where
  "py_iter (PList xs) = Inr xs"
| "py_iter (PDict kvs) = Inr (map (\<lambda>kv. PStr (fst kv)) kvs)"
| "py_iter (PStr s) = Inr (map (\<lambda>c. PStr [c]) s)"
| "py_iter v = Inl TypeError"

text \<open>\<^verbatim>\<open>sep.join(parts)\<close>.\<close>

fun join :: "string \<Rightarrow> string list \<Rightarrow> string" where
  "join sep [] = []"
| "join sep [x] = x"
| "join sep (x # y # ys) = x @ sep @ join sep (y # ys)"

subsection \<open>Formatting a value inside an f-string\<close>

text \<open>
  \<^verbatim>\<open>f"{v}"\<close> is \<^verbatim>\<open>str(v)\<close> for these values. Two primitives of the interpreter
  are taken as parameters: the shortest round-trip text of a float and the
  quoted form of a str.
\<close>

record py_builtins =
  float_repr :: "pyfloat \<Rightarrow> string"
  str_repr :: "string \<Rightarrow> string"

fun dec_nat :: "nat \<Rightarrow> string" where
  "dec_nat n =
     (if n < 10 then [''0123456789'' ! n]
      else dec_nat (n div 10) @ [''0123456789'' ! (n mod 10)])"

definition int_str :: "int \<Rightarrow> string" where
  "int_str i = (if i < 0 then ''-'' @ dec_nat (nat (- i)) else dec_nat (nat i))"

primrec py_repr :: "py_builtins \<Rightarrow> pyval \<Rightarrow> string" where
  "py_repr B PNone = ''None''"
| "py_repr B (PBool b) = (if b then ''True'' else ''False'')"
| "py_repr B (PInt i) = int_str i"
| "py_repr B (PFloat x) = float_repr B x"
| "py_repr B (PStr s) = str_repr B s"
| "py_repr B (PList xs) = ''['' @ join '', '' (map (py_repr B) xs) @ '']''"
| "py_repr B (PDict kvs) =
     ''{'' @ join '', ''
        (map (\<lambda>kr. str_repr B (fst kr) @ '': '' @ snd kr)
           (map (map_prod id (py_repr B)) kvs)) @ ''}''"

definition py_str :: "py_builtins \<Rightarrow> pyval \<Rightarrow> string" where
  "py_str B v = (case v of PStr s \<Rightarrow> s | _ \<Rightarrow> py_repr B v)"

section \<open>The HTTP adapter\<close>

definition NWS_API_BASE :: string where
  "NWS_API_BASE = ''https://api.weather.gov''"

definition USER_AGENT :: string where
  "USER_AGENT = ''weather-app/1.0''"

text \<open>
  What \<^verbatim>\<open>client.get\<close> is called with, and the response object it returns: its
  status, the text of the error \<^verbatim>\<open>raise_for_status()\<close> raises for it, and what
  \<^verbatim>\<open>json()\<close> gives on its body (\<open>Inl\<close> the text of the parse error).
\<close>

record request =
  url :: pyval
  headers :: "(string \<times> string) list"
  timeout :: nat

record response =
  status_code :: nat
  status_error :: string
  json :: "string + pyval"

text \<open>
  The network: the outcome of the \<open>n\<close>-th \<^verbatim>\<open>client.get\<close> of a run, \<open>Inl\<close> the text
  of the exception it raises (DNS, connection refused, timeout, a URL that is
  not a str), \<open>Inr\<close> the response.
\<close>

type_synonym transport = "nat \<Rightarrow> request \<Rightarrow> string + response"

text \<open>The effects of a run: the requests made so far and the lines printed.\<close>

record world =
  requested :: "request list"
  printed :: "string list"

text \<open>
  Modelled from the spec: \<^verbatim>\<open>Response.raise_for_status\<close> belongs to the httpx
  library, not to this repository; "Treat any non-2xx HTTP status as a failure."
\<close>

definition raise_for_status :: "response \<Rightarrow> string + unit" where
  "raise_for_status r =
     (if 200 \<le> status_code r \<and> status_code r \<le> 299 then Inr ()
      else Inl (status_error r))"

text \<open>The call \<^verbatim>\<open>client.get(url, headers=headers, timeout=30.0)\<close>.\<close>

definition nws_request :: "pyval \<Rightarrow> request" where
  "nws_request u =
     \<lparr>url = u,
      headers = [(''User-Agent'', USER_AGENT), (''Accept'', ''application/geo+json'')],
      timeout = 30\<rparr>"

text \<open>
  The \<^verbatim>\<open>try\<close> block runs the three calls in turn; \<^verbatim>\<open>except Exception\<close> prints one
  line and returns \<^verbatim>\<open>None\<close>.
\<close>

definition makeNwsRequest ::
    "transport \<Rightarrow> py_builtins \<Rightarrow> pyval \<Rightarrow> world \<Rightarrow> pyval \<times> world" where
  "makeNwsRequest client_get B u w =
     (let w1 = w\<lparr>requested := requested w @ [nws_request u]\<rparr>
      in case bind_err (client_get (length (requested w)) (nws_request u))
                (\<lambda>resp. bind_err (raise_for_status resp) (\<lambda>_. json resp)) of
           Inr v \<Rightarrow> (v, w1)
         | Inl e \<Rightarrow>
             (PNone,
              w1\<lparr>printed := printed w1 @
                    [''Error making request to '' @ py_str B u @ '': '' @ e]\<rparr>))"

section \<open>Formatters\<close>

definition formatAlert :: "py_builtins \<Rightarrow> pyval \<Rightarrow> py_error + string" where
  "formatAlert B feature =
     bind_err (py_getitem feature ''properties'') (\<lambda>props.
     bind_err (py_get props ''event'' (PStr ''Unknown'')) (\<lambda>event.
     bind_err (py_get props ''areaDesc'' (PStr ''Unknown'')) (\<lambda>area.
     bind_err (py_get props ''severity'' (PStr ''Unknown'')) (\<lambda>severity.
     bind_err (py_get props ''description'' (PStr ''No description available'')) (\<lambda>description.
     bind_err (py_get props ''instruction'' (PStr ''No specific instructions provided''))
       (\<lambda>instruction.
     Inr (''\<newline>    Event: '' @ py_str B event @
          ''\<newline>    Area: '' @ py_str B area @
          ''\<newline>    Severity: '' @ py_str B severity @
          ''\<newline>    Description: '' @ py_str B description @
          ''\<newline>    Instructions: '' @ py_str B instruction @
          ''\<newline>    '')))))))"

text \<open>
  The f-string in the loop of \<^verbatim>\<open>getForecast\<close>; the degree sign is U+00B0, the
  bytes C2 B0.
\<close>

definition formatPeriod :: "py_builtins \<Rightarrow> pyval \<Rightarrow> py_error + string" where
  "formatPeriod B period =
     bind_err (py_getitem period ''name'') (\<lambda>name.
     bind_err (py_getitem period ''temperature'') (\<lambda>temperature.
     bind_err (py_getitem period ''temperatureUnit'') (\<lambda>unit.
     bind_err (py_getitem period ''windSpeed'') (\<lambda>speed.
     bind_err (py_getitem period ''windDirection'') (\<lambda>direction.
     bind_err (py_getitem period ''detailedForecast'') (\<lambda>detailed.
     Inr (''\<newline>            '' @ py_str B name @
          '':\<newline>            Temperature: '' @ py_str B temperature @
          [CHR 0xC2, CHR 0xB0] @ py_str B unit @
          ''\<newline>            Wind: '' @ py_str B speed @ '' '' @ py_str B direction @
          ''\<newline>            Forecast: '' @ py_str B detailed @
          ''\<newline>            '')))))))"

section \<open>Tool handlers\<close>

text \<open>
  A list comprehension or an appending loop whose body can raise: the first
  exception ends it.
\<close>

fun collect :: "('a \<Rightarrow> py_error + 'b) \<Rightarrow> 'a list \<Rightarrow> 'b list \<Rightarrow> py_error + 'b list" where
  "collect f [] acc = Inr acc"
| "collect f (x # xs) acc =
     (case f x of Inl e \<Rightarrow> Inl e | Inr y \<Rightarrow> collect f xs (acc @ [y]))"

definition alerts_text :: "py_builtins \<Rightarrow> pyval \<Rightarrow> py_error + string" where
  "alerts_text B data =
     (if \<not> truthy data then Inr ''Unable to fetch alerts or no alerts found.''
      else bind_err (py_in ''features'' data) (\<lambda>present.
        if \<not> present then Inr ''Unable to fetch alerts or no alerts found.''
        else bind_err (py_getitem data ''features'') (\<lambda>features.
          if \<not> truthy features then Inr ''No active alerts for this state.''
          else bind_err (py_iter features) (\<lambda>items.
               bind_err (collect (formatAlert B) items []) (\<lambda>alerts.
               Inr (join ''\<newline>---\<newline>'' alerts))))))"

definition alerts_url :: "string \<Rightarrow> string" where
  "alerts_url state = NWS_API_BASE @ ''/alerts/active/area/'' @ state"

definition getAlerts ::
    "transport \<Rightarrow> py_builtins \<Rightarrow> string \<Rightarrow> world \<Rightarrow> (py_error + string) \<times> world" where
  "getAlerts client_get B state w =
     (let (data, w1) = makeNwsRequest client_get B (PStr (alerts_url state)) w
      in (alerts_text B data, w1))"

definition forecast_text :: "py_builtins \<Rightarrow> pyval \<Rightarrow> py_error + string" where
  "forecast_text B forecast_data =
     bind_err (py_getitem2 forecast_data ''properties'' ''periods'') (\<lambda>periods.
     bind_err (py_slice5 periods) (\<lambda>first5.
     bind_err (py_iter first5) (\<lambda>items.
     bind_err (collect (formatPeriod B) items []) (\<lambda>forecasts.
     Inr (join ''\<newline>---\<newline>'' forecasts)))))"

definition points_url :: "py_builtins \<Rightarrow> pyfloat \<Rightarrow> pyfloat \<Rightarrow> string" where
  "points_url B latitude longitude =
     NWS_API_BASE @ ''/points/'' @ float_repr B latitude @ '','' @ float_repr B longitude"

definition getForecast ::
    "transport \<Rightarrow> py_builtins \<Rightarrow> pyfloat \<Rightarrow> pyfloat \<Rightarrow> world \<Rightarrow> (py_error + string) \<times> world" where
  "getForecast client_get B latitude longitude w =
     (let (points_data, w1) =
            makeNwsRequest client_get B (PStr (points_url B latitude longitude)) w
      in if \<not> truthy points_data
         then (Inr ''Unable to fetch forecast data for this location.'', w1)
         else (case py_getitem2 points_data ''properties'' ''forecast'' of
                 Inl e \<Rightarrow> (Inl e, w1)
               | Inr forecast_url \<Rightarrow>
                   (let (forecast_data, w2) = makeNwsRequest client_get B forecast_url w1
                    in if \<not> truthy forecast_data
                       then (Inr ''Unable to fetch detailed forecast.'', w2)
                       else (forecast_text B forecast_data, w2))))"

section \<open>Stand-ins for the examples\<close>

text \<open>
  A scripted network answers the \<open>n\<close>-th request of a run with the \<open>n\<close>-th
  reply of a list and refuses the connection once the list is used up.
\<close>

definition scripted :: "(string + response) list \<Rightarrow> transport" where
  "scripted replies n req =
     (if n < length replies then replies ! n else Inl ''connection refused'')"

definition ok_reply :: "pyval \<Rightarrow> string + response" where
  "ok_reply v = Inr \<lparr>status_code = 200, status_error = [], json = Inr v\<rparr>"

definition status_reply :: "nat \<Rightarrow> string + response" where
  "status_reply code = Inr \<lparr>status_code = code, status_error = ''bad status'', json = Inr (PDict [])\<rparr>"

definition garbled_reply :: "string + response" where
  "garbled_reply = Inr \<lparr>status_code = 200, status_error = [], json = Inl ''Expecting value''\<rparr>"

text \<open>
  Stand-ins for the two interpreter primitives, right on the inputs the
  examples use: the doubles 39.0, -105.0 and 0.0, and strings that need no
  escaping.
\<close>

definition sample_builtins :: py_builtins where
  "sample_builtins =
     \<lparr>float_repr =
        (\<lambda>x. if x = 0x4043800000000000 then ''39.0''
             else if x = 0xC05A400000000000 then ''-105.0'' else ''0.0''),
      str_repr = (\<lambda>s. [CHR 0x27] @ s @ [CHR 0x27])\<rparr>"

definition start :: world where
  "start = \<lparr>requested = [], printed = []\<rparr>"


definition sample_points :: pyval where
  "sample_points =
     PDict [(''properties'',
             PDict [(''forecast'', PStr ''https://api.weather.gov/gridpoints/BOU/1,2/forecast'')])]"

definition sample_period :: "string \<Rightarrow> int \<Rightarrow> pyval" where
  "sample_period name temperature =
     PDict [(''name'', PStr name), (''temperature'', PInt temperature),
            (''temperatureUnit'', PStr ''F''), (''windSpeed'', PStr ''5 mph''),
            (''windDirection'', PStr ''NW''), (''detailedForecast'', PStr ''Clear.'')]"

definition sample_forecast :: "pyval list \<Rightarrow> pyval" where
  "sample_forecast periods = PDict [(''properties'', PDict [(''periods'', PList periods)])]"

definition sample_alert :: "string \<Rightarrow> pyval" where
  "sample_alert event =
     PDict [(''id'', PStr ''a1''),
            (''properties'',
             PDict [(''event'', PStr event), (''areaDesc'', PStr ''Boulder''),
                    (''description'', PStr ''River rising.''),
                    (''instruction'', PStr ''Move uphill.'')])]"

section \<open>Shapes of the upstream data\<close>

text \<open>An alert feature that \<^verbatim>\<open>formatAlert\<close> can format: an object holding an object under \<^verbatim>\<open>properties\<close>.\<close>

fun feature_ok :: "pyval \<Rightarrow> bool" where
  "feature_ok (PDict kvs) =
     (case map_of kvs ''properties'' of Some (PDict props) \<Rightarrow> True | _ \<Rightarrow> False)"
| "feature_ok v = False"

text \<open>
  The adapter results on which \<^verbatim>\<open>getAlerts\<close> raises nothing: a false value; an
  object, array or string without \<^verbatim>\<open>features\<close>; an object whose \<^verbatim>\<open>features\<close> is a
  false value or an array of well-shaped features.
\<close>

definition alerts_safe :: "pyval \<Rightarrow> bool" where
  "alerts_safe data =
     (if \<not> truthy data then True
      else case data of
        PDict kvs \<Rightarrow>
          (case map_of kvs ''features'' of
             None \<Rightarrow> True
           | Some features \<Rightarrow>
               (if \<not> truthy features then True
                else case features of
                       PList items \<Rightarrow> list_all feature_ok items
                     | _ \<Rightarrow> False))
      | PList xs \<Rightarrow> PStr ''features'' \<notin> set xs
      | PStr s \<Rightarrow> \<not> contains_str ''features'' s
      | _ \<Rightarrow> False)"

text \<open>A forecast period with the six fields the f-string reads.\<close>

definition period_keys :: "string list" where
  "period_keys = [''name'', ''temperature'', ''temperatureUnit'', ''windSpeed'',
                  ''windDirection'', ''detailedForecast'']"

fun period_ok :: "pyval \<Rightarrow> bool" where
  "period_ok (PDict kvs) = list_all (\<lambda>k. map_of kvs k \<noteq> None) period_keys"
| "period_ok v = False"

text \<open>
  The specification's rule for one line of an alert: the fixed default when
  the field is absent, a string field unchanged, any other value as \<^verbatim>\<open>str\<close>
  prints it.
\<close>

definition spec_field_text :: "py_builtins \<Rightarrow> pyval option \<Rightarrow> string \<Rightarrow> string" where
  "spec_field_text B field dflt =
     (case field of None \<Rightarrow> dflt | Some (PStr s) \<Rightarrow> s | Some v \<Rightarrow> py_str B v)"

section \<open>Auxiliary facts\<close>

lemmas fixture_defs = scripted_def ok_reply_def sample_builtins_def start_def

lemmas request_defs =
  makeNwsRequest_def raise_for_status_def alerts_url_def points_url_def NWS_API_BASE_def
  USER_AGENT_def py_str_def

lemma bind_err_Inl [simp]: "bind_err (Inl e) f = Inl e"
  by (simp add: bind_err_def)

lemma bind_err_Inr [simp]: "bind_err (Inr x) f = f x"
  by (simp add: bind_err_def)

lemma collect_all_Inr: "map f xs = map Inr ys \<Longrightarrow> collect f xs acc = Inr (acc @ ys)"
proof (induction xs arbitrary: ys acc)
  case Nil
  then show ?case by simp
next
  case (Cons x xs)
  then obtain y ys' where ys: "ys = y # ys'" "f x = Inr y" "map f xs = map Inr ys'"
    by (cases ys) auto
  with Cons.IH [of ys' "acc @ [y]"] show ?case by simp
qed

lemma collect_some_Inl: "x \<in> set xs \<Longrightarrow> f x = Inl e \<Longrightarrow> \<exists>e'. collect f xs acc = Inl e'"
  by (induction xs arbitrary: acc) (auto split: sum.splits)

lemma all_Inr_blocks: "(\<forall>x\<in>set xs. \<exists>y. f x = Inr y) \<Longrightarrow> \<exists>ys. map f xs = map Inr ys"
proof (induction xs)
  case Nil
  then show ?case by simp
next
  case (Cons x xs)
  then obtain y ys where "f x = Inr y" "map f xs = map Inr ys" by auto
  then have "map f (x # xs) = map Inr (y # ys)" by simp
  then show ?case by blast
qed

lemma map_Inr_eq: "map Inr xs = (map Inr ys :: ('e + 'a) list) \<Longrightarrow> xs = ys"
  by (simp add: inj_map_eq_map)

lemma map_of_in_keys: "map_of kvs k = Some v \<Longrightarrow> k \<in> fst ` set kvs"
  by (induction kvs) (auto split: if_splits)

lemma py_getitem2_truthy: "py_getitem2 v k1 k2 = Inr x \<Longrightarrow> truthy v"
  by (cases v) (auto simp: py_getitem2_def)

lemma spec_field_text_eq:
  "spec_field_text B field dflt = (case field of None \<Rightarrow> dflt | Some v \<Rightarrow> py_str B v)"
  by (simp add: spec_field_text_def py_str_def split: option.splits pyval.splits)

subsection \<open>The formatters\<close>

lemma formatAlert_ok_iff: "(\<exists>s. formatAlert B feature = Inr s) \<longleftrightarrow> feature_ok feature"
proof (cases feature)
  case (PDict kvs)
  show ?thesis
  proof (cases "map_of kvs ''properties''")
    case None
    with PDict show ?thesis by (simp add: formatAlert_def)
  next
    case (Some props)
    with PDict show ?thesis by (cases props) (simp_all add: formatAlert_def)
  qed
qed (simp_all add: formatAlert_def)

lemma formatAlert_not_ok: "\<not> feature_ok feature \<Longrightarrow> \<exists>e. formatAlert B feature = Inl e"
  using formatAlert_ok_iff [of B feature] by (cases "formatAlert B feature") auto

lemma formatAlert_PStr: "formatAlert B (PStr s) = Inl TypeError"
  by (simp add: formatAlert_def)

lemma formatPeriod_ok: "period_ok period \<Longrightarrow> \<exists>s. formatPeriod B period = Inr s"
  by (cases period) (auto simp: formatPeriod_def period_keys_def)

subsection \<open>The adapter's effects\<close>

lemma makeNwsRequest_requested:
  "makeNwsRequest client_get B u w = (v, w1) \<Longrightarrow> requested w1 = requested w @ [nws_request u]"
  by (auto simp: makeNwsRequest_def Let_def split: sum.splits)

subsection \<open>\<^verbatim>\<open>getAlerts\<close> after its request\<close>

lemma getAlerts_eq:
  "makeNwsRequest client_get B (PStr (alerts_url state)) w = (data, w1) \<Longrightarrow>
   getAlerts client_get B state w = (alerts_text B data, w1)"
  by (simp add: getAlerts_def)

lemma alerts_text_falsy:
  "\<not> truthy data \<Longrightarrow> alerts_text B data = Inr ''Unable to fetch alerts or no alerts found.''"
  by (simp add: alerts_text_def)

lemma alerts_text_absent:
  "py_in ''features'' data = Inr False \<Longrightarrow>
   alerts_text B data = Inr ''Unable to fetch alerts or no alerts found.''"
  by (simp add: alerts_text_def)

lemma alerts_text_features:
  assumes "map_of kvs ''features'' = Some features"
  shows "alerts_text B (PDict kvs) =
           (if \<not> truthy features then Inr ''No active alerts for this state.''
            else bind_err (py_iter features) (\<lambda>items.
                 bind_err (collect (formatAlert B) items []) (\<lambda>alerts.
                 Inr (join ''\<newline>---\<newline>'' alerts))))"
proof -
  from assms have "kvs \<noteq> []" by auto
  moreover from assms have "''features'' \<in> fst ` set kvs" by (rule map_of_in_keys)
  ultimately show ?thesis using assms by (simp add: alerts_text_def)
qed

lemma alerts_text_safe:
  assumes "alerts_safe data"
  shows "alerts_text B data = Inr ''Unable to fetch alerts or no alerts found.''
       \<or> alerts_text B data = Inr ''No active alerts for this state.''
       \<or> (\<exists>features blocks. py_getitem data ''features'' = Inr (PList features)
             \<and> map (formatAlert B) features = map Inr blocks
             \<and> alerts_text B data = Inr (join ''\<newline>---\<newline>'' blocks))"
proof (cases "truthy data")
  case False
  then show ?thesis by (simp add: alerts_text_falsy)
next
  case True
  show ?thesis
  proof (cases data)
    case (PDict kvs)
    show ?thesis
    proof (cases "map_of kvs ''features''")
      case None
      then have "''features'' \<notin> fst ` set kvs" by (simp add: map_of_eq_None_iff)
      with PDict show ?thesis by (simp add: alerts_text_absent)
    next
      case (Some features)
      note feats = this
      show ?thesis
      proof (cases "truthy features")
        case False
        with PDict feats show ?thesis by (simp add: alerts_text_features)
      next
        case tf: True
        with assms True PDict feats obtain items where
          items: "features = PList items" "list_all feature_ok items"
          by (cases features) (simp_all add: alerts_safe_def)
        then have "\<forall>f\<in>set items. \<exists>s. formatAlert B f = Inr s"
          by (simp add: list_all_iff formatAlert_ok_iff)
        then obtain blocks where blocks: "map (formatAlert B) items = map Inr blocks"
          using all_Inr_blocks by blast
        then have "collect (formatAlert B) items [] = Inr blocks"
          using collect_all_Inr [of "formatAlert B" items blocks "[]"] by simp
        with PDict feats items tf blocks show ?thesis
          by (simp add: alerts_text_features)
      qed
    qed
  next
    case (PList xs)
    with assms True show ?thesis by (simp add: alerts_safe_def alerts_text_absent)
  next
    case (PStr s)
    with assms True show ?thesis by (simp add: alerts_safe_def alerts_text_absent)
  qed (use assms True in \<open>simp_all add: alerts_safe_def\<close>)
qed

lemma alerts_text_unsafe:
  assumes "\<not> alerts_safe data"
  shows "\<exists>e. alerts_text B data = Inl e"
proof -
  from assms have t: "truthy data"
    by (cases "truthy data") (simp_all add: alerts_safe_def)
  show ?thesis
  proof (cases data)
    case (PDict kvs)
    with assms t obtain features where feats: "map_of kvs ''features'' = Some features"
      and tf: "truthy features"
      and shape: "\<not> (case features of PList items \<Rightarrow> list_all feature_ok items | _ \<Rightarrow> False)"
      by (auto simp: alerts_safe_def split: option.splits if_splits)
    from shape have bad: "\<forall>items. features = PList items \<longrightarrow> \<not> list_all feature_ok items"
      by auto
    have "\<exists>e. bind_err (py_iter features) (\<lambda>items.
                 bind_err (collect (formatAlert B) items []) (\<lambda>alerts.
                 Inr (join ''\<newline>---\<newline>'' alerts))) = Inl e"
    proof (cases features)
      case (PList items)
      with bad obtain f where "f \<in> set items" "\<not> feature_ok f"
        by (auto simp: list_all_iff)
      then obtain e where "collect (formatAlert B) items [] = Inl e"
        using formatAlert_not_ok [of f B] collect_some_Inl [of f items "formatAlert B"]
        by blast
      with PList show ?thesis by simp
    next
      case (PStr s)
      with tf obtain c cs where "s = c # cs" by (cases s) auto
      with PStr show ?thesis by (simp add: formatAlert_PStr)
    next
      case (PDict inner)
      with tf obtain kv rest where "inner = kv # rest" by (cases inner) auto
      with PDict show ?thesis by (simp add: formatAlert_PStr)
    qed simp_all
    with PDict feats tf show ?thesis by (simp add: alerts_text_features)
  next
    case (PList xs)
    with assms t show ?thesis by (simp add: alerts_safe_def alerts_text_def)
  next
    case (PStr s)
    with assms t show ?thesis by (simp add: alerts_safe_def alerts_text_def)
  qed (use t in \<open>simp_all add: alerts_text_def\<close>)
qed

subsection \<open>\<^verbatim>\<open>getForecast\<close> after each request\<close>

lemma getForecast_falsy_points:
  "makeNwsRequest client_get B (PStr (points_url B latitude longitude)) w = (points_data, w1) \<Longrightarrow>
   \<not> truthy points_data \<Longrightarrow>
   getForecast client_get B latitude longitude w =
     (Inr ''Unable to fetch forecast data for this location.'', w1)"
  by (simp add: getForecast_def)

lemma getForecast_points_access:
  "makeNwsRequest client_get B (PStr (points_url B latitude longitude)) w = (points_data, w1) \<Longrightarrow>
   truthy points_data \<Longrightarrow>
   py_getitem2 points_data ''properties'' ''forecast'' = Inl e \<Longrightarrow>
   getForecast client_get B latitude longitude w = (Inl e, w1)"
  by (simp add: getForecast_def)

lemma getForecast_second:
  "makeNwsRequest client_get B (PStr (points_url B latitude longitude)) w = (points_data, w1) \<Longrightarrow>
   py_getitem2 points_data ''properties'' ''forecast'' = Inr forecast_url \<Longrightarrow>
   makeNwsRequest client_get B forecast_url w1 = (forecast_data, w2) \<Longrightarrow>
   getForecast client_get B latitude longitude w =
     (if \<not> truthy forecast_data then Inr ''Unable to fetch detailed forecast.''
      else forecast_text B forecast_data, w2)"
  using py_getitem2_truthy [of points_data "''properties''" "''forecast''" forecast_url]
  by (simp add: getForecast_def)

lemma forecast_text_periods:
  "py_getitem2 forecast_data ''properties'' ''periods'' = Inr (PList periods) \<Longrightarrow>
   forecast_text B forecast_data =
     bind_err (collect (formatPeriod B) (take 5 periods) [])
       (\<lambda>forecasts. Inr (join ''\<newline>---\<newline>'' forecasts))"
  by (simp add: forecast_text_def)

subsection \<open>The sample run\<close>

lemma sample_points_request:
  "makeNwsRequest (scripted (ok_reply sample_points # rest)) sample_builtins
     (PStr (points_url sample_builtins 0x4043800000000000 0xC05A400000000000)) start =
   (sample_points,
    \<lparr>requested = [nws_request (PStr ''https://api.weather.gov/points/39.0,-105.0'')],
     printed = []\<rparr>)"
  by (simp add: fixture_defs request_defs)

lemma sample_points_forecast:
  "py_getitem2 sample_points ''properties'' ''forecast'' =
     Inr (PStr ''https://api.weather.gov/gridpoints/BOU/1,2/forecast'')"
  by (simp add: py_getitem2_def sample_points_def)

lemma sample_forecast_request:
  "makeNwsRequest (scripted [first, ok_reply v]) sample_builtins
     (PStr ''https://api.weather.gov/gridpoints/BOU/1,2/forecast'')
     \<lparr>requested = [nws_request (PStr ''https://api.weather.gov/points/39.0,-105.0'')],
      printed = []\<rparr> =
   (v, \<lparr>requested = [nws_request (PStr ''https://api.weather.gov/points/39.0,-105.0''),
                     nws_request (PStr ''https://api.weather.gov/gridpoints/BOU/1,2/forecast'')],
        printed = []\<rparr>)"
  by (simp add: makeNwsRequest_def scripted_def ok_reply_def raise_for_status_def)

lemma sample_forecast_periods:
  "py_getitem2 (sample_forecast periods) ''properties'' ''periods'' = Inr (PList periods)"
  by (simp add: py_getitem2_def sample_forecast_def)

lemma sample_period_text:
  "formatPeriod sample_builtins (sample_period name 72) =
     Inr (''\<newline>            '' @ name @
          '':\<newline>            Temperature: 72'' @ [CHR 0xC2, CHR 0xB0] @
          ''F\<newline>            Wind: 5 mph NW\<newline>            Forecast: Clear.\<newline>            '')"
  by (simp add: formatPeriod_def sample_period_def py_str_def int_str_def)

lemma sample_alert_text:
  "formatAlert sample_builtins (sample_alert event) =
     Inr (''\<newline>    Event: '' @ event @
          ''\<newline>    Area: Boulder\<newline>    Severity: Unknown\<newline>    Description: River rising.\<newline>    Instructions: Move uphill.\<newline>    '')"
  by (simp add: formatAlert_def sample_alert_def py_str_def)

lemma sample_alerts_request:
  "makeNwsRequest (scripted [ok_reply v]) sample_builtins (PStr (alerts_url ''CA'')) start =
   (v, \<lparr>requested = [nws_request (PStr ''https://api.weather.gov/alerts/active/area/CA'')],
        printed = []\<rparr>)"
  by (simp add: fixture_defs request_defs)

section \<open>The adapter never raises\<close>

text \<open>
  C1. Whenever \<^verbatim>\<open>client.get\<close> raises (a timeout, a DNS or connection error), or
  the response has a status outside 200..299, or its body fails to parse as
  JSON, \<^verbatim>\<open>makeNwsRequest\<close> returns \<^verbatim>\<open>None\<close>; the result is a value, no exception
  reaches the caller.
\<close>

theorem makeNwsRequest_failure_returns_None:
  assumes "(\<exists>msg. client_get (length (requested w)) (nws_request u) = Inl msg)
         \<or> (\<exists>r. client_get (length (requested w)) (nws_request u) = Inr r
                \<and> (status_code r < 200 \<or> 299 < status_code r \<or> (\<exists>msg. json r = Inl msg)))"
  shows "fst (makeNwsRequest client_get B u w) = PNone"
  using assms
  by (auto simp: makeNwsRequest_def bind_err_def raise_for_status_def Let_def split: sum.splits)

theorem makeNwsRequest_failure_returns_None_witness:
  "fst (makeNwsRequest (scripted [Inl ''timed out'']) sample_builtins (PStr ''https://api.weather.gov/alerts/active/area/CA'') start) = PNone
   \<and> fst (makeNwsRequest (scripted [status_reply 404]) sample_builtins (PStr ''https://api.weather.gov/alerts/active/area/CA'') start) = PNone
   \<and> fst (makeNwsRequest (scripted [status_reply 302]) sample_builtins (PStr ''https://api.weather.gov/alerts/active/area/CA'') start) = PNone
   \<and> fst (makeNwsRequest (scripted [garbled_reply]) sample_builtins (PStr ''https://api.weather.gov/alerts/active/area/CA'') start) = PNone"
proof -
  let ?u = "PStr ''https://api.weather.gov/alerts/active/area/CA''"
  have a: "fst (makeNwsRequest (scripted [Inl ''timed out'']) sample_builtins ?u start) = PNone"
    using makeNwsRequest_failure_returns_None
      [of "scripted [Inl ''timed out'']" start ?u sample_builtins]
    by (simp add: scripted_def start_def)
  have b: "fst (makeNwsRequest (scripted [status_reply 404]) sample_builtins ?u start) = PNone"
    using makeNwsRequest_failure_returns_None
      [of "scripted [status_reply 404]" start ?u sample_builtins]
    by (simp add: scripted_def start_def status_reply_def)
  have c: "fst (makeNwsRequest (scripted [status_reply 302]) sample_builtins ?u start) = PNone"
    using makeNwsRequest_failure_returns_None
      [of "scripted [status_reply 302]" start ?u sample_builtins]
    by (simp add: scripted_def start_def status_reply_def)
  have d: "fst (makeNwsRequest (scripted [garbled_reply]) sample_builtins ?u start) = PNone"
    using makeNwsRequest_failure_returns_None
      [of "scripted [garbled_reply]" start ?u sample_builtins]
    by (simp add: scripted_def start_def garbled_reply_def)
  from a b c d show ?thesis by simp
qed


section \<open>\<^verbatim>\<open>getAlerts\<close>\<close>

text \<open>
  C6, as the code has it. Whatever the state argument, when the adapter
  returns "no data" or any other false value, or an object, array or string in
  which \<^verbatim>\<open>"features" in data\<close> is false, \<^verbatim>\<open>getAlerts\<close> returns exactly
  \<^verbatim>\<open>"Unable to fetch alerts or no alerts found."\<close>. A true value that supports
  no membership test (\<^verbatim>\<open>true\<close>, a non-zero number) has no \<^verbatim>\<open>features\<close> entry
  either, but on it the test raises and TypeError escapes the handler.
\<close>

theorem getAlerts_no_data_or_no_features:
  assumes "makeNwsRequest client_get B (PStr (alerts_url state)) w = (data, w1)"
  shows "(\<not> truthy data \<or> py_in ''features'' data = Inr False \<longrightarrow>
            getAlerts client_get B state w =
              (Inr ''Unable to fetch alerts or no alerts found.'', w1))
       \<and> (truthy data \<and> ((\<exists>b. data = PBool b) \<or> (\<exists>i. data = PInt i) \<or> (\<exists>x. data = PFloat x)) \<longrightarrow>
            getAlerts client_get B state w = (Inl TypeError, w1))"
proof (intro conjI impI)
  assume "\<not> truthy data \<or> py_in ''features'' data = Inr False"
  with assms show "getAlerts client_get B state w =
      (Inr ''Unable to fetch alerts or no alerts found.'', w1)"
    by (auto simp: getAlerts_eq alerts_text_falsy alerts_text_absent)
next
  assume scalar: "truthy data \<and>
      ((\<exists>b. data = PBool b) \<or> (\<exists>i. data = PInt i) \<or> (\<exists>x. data = PFloat x))"
  then have "py_in ''features'' data = Inl TypeError" by auto
  with scalar have "alerts_text B data = Inl TypeError"
    by (simp add: alerts_text_def)
  with assms show "getAlerts client_get B state w = (Inl TypeError, w1)"
    by (simp add: getAlerts_eq)
qed

theorem getAlerts_no_data_or_no_features_witness:
  "getAlerts (scripted [Inl ''timed out'']) sample_builtins ''XX'' start =
     (Inr ''Unable to fetch alerts or no alerts found.'',
      \<lparr>requested = [nws_request (PStr ''https://api.weather.gov/alerts/active/area/XX'')],
       printed = [''Error making request to https://api.weather.gov/alerts/active/area/XX: timed out'']\<rparr>)
   \<and> getAlerts (scripted [ok_reply (PDict [(''title'', PStr ''Not Found'')])])
        sample_builtins ''XX'' start =
     (Inr ''Unable to fetch alerts or no alerts found.'',
      \<lparr>requested = [nws_request (PStr ''https://api.weather.gov/alerts/active/area/XX'')],
       printed = []\<rparr>)
   \<and> getAlerts (scripted [ok_reply (PFloat 0x4043800000000000)]) sample_builtins ''XX'' start =
     (Inl TypeError,
      \<lparr>requested = [nws_request (PStr ''https://api.weather.gov/alerts/active/area/XX'')],
       printed = []\<rparr>)"
proof -
  let ?u = "PStr ''https://api.weather.gov/alerts/active/area/XX''"
  let ?w1 = "\<lparr>requested = [nws_request ?u],
       printed = [''Error making request to https://api.weather.gov/alerts/active/area/XX: timed out'']\<rparr>"
  let ?w2 = "\<lparr>requested = [nws_request ?u], printed = []\<rparr>"
  have a: "makeNwsRequest (scripted [Inl ''timed out'']) sample_builtins
             (PStr (alerts_url ''XX'')) start = (PNone, ?w1)"
    by (simp add: fixture_defs request_defs)
  have b: "makeNwsRequest (scripted [ok_reply v]) sample_builtins
             (PStr (alerts_url ''XX'')) start = (v, ?w2)" for v
    by (simp add: fixture_defs request_defs)
  have t: "truthy (PFloat 0x4043800000000000)" by (simp add: mask_eq_exp_minus_1)
  show ?thesis
    using getAlerts_no_data_or_no_features [OF a]
      getAlerts_no_data_or_no_features [OF b [of "PDict [(''title'', PStr ''Not Found'')]"]]
      getAlerts_no_data_or_no_features [OF b [of "PFloat 0x4043800000000000"]] t
    by simp
qed

text \<open>
  C6, as stated, fails: the JSON values \<^verbatim>\<open>5\<close> and \<^verbatim>\<open>true\<close> have no \<^verbatim>\<open>features\<close>
  entry, yet \<^verbatim>\<open>getAlerts\<close> does not return the literal on them; the membership
  test raises TypeError.
\<close>

theorem getAlerts_scalar_result_raises:
  "fst (getAlerts (scripted [ok_reply (PInt 5)]) sample_builtins ''XX'' start) = Inl TypeError
   \<and> fst (getAlerts (scripted [ok_reply (PBool True)]) sample_builtins ''XX'' start) =
       Inl TypeError"
  by (simp add: getAlerts_def alerts_text_def fixture_defs request_defs)

text \<open>
  C7. When the adapter result is an object whose \<^verbatim>\<open>features\<close> is a list of alert
  features, \<^verbatim>\<open>getAlerts\<close> returns exactly \<^verbatim>\<open>"No active alerts for this state."\<close>
  for the empty list, and otherwise one formatted block per feature, in the
  order of the features, joined by \<^verbatim>\<open>"\n---\n"\<close>.
\<close>

theorem getAlerts_features_list:
  assumes "makeNwsRequest client_get B (PStr (alerts_url state)) w = (PDict kvs, w1)"
    and "map_of kvs ''features'' = Some (PList features)"
    and "list_all feature_ok features"
  shows "\<exists>blocks. length blocks = length features
           \<and> map (formatAlert B) features = map Inr blocks
           \<and> getAlerts client_get B state w =
               (Inr (if features = [] then ''No active alerts for this state.''
                     else join ''\<newline>---\<newline>'' blocks), w1)"
proof -
  from assms(3) have "\<forall>f\<in>set features. \<exists>s. formatAlert B f = Inr s"
    by (simp add: list_all_iff formatAlert_ok_iff)
  then obtain blocks where blocks: "map (formatAlert B) features = map Inr blocks"
    using all_Inr_blocks by blast
  then have "length (map (formatAlert B) features) =
             length (map Inr blocks :: (py_error + string) list)"
    by simp
  then have len: "length blocks = length features" by simp
  from blocks have "collect (formatAlert B) features [] = Inr blocks"
    using collect_all_Inr [of "formatAlert B" features blocks "[]"] by simp
  with assms(1,2) have "getAlerts client_get B state w =
               (Inr (if features = [] then ''No active alerts for this state.''
                     else join ''\<newline>---\<newline>'' blocks), w1)"
    by (simp add: getAlerts_eq alerts_text_features)
  with blocks len show ?thesis by blast
qed

theorem getAlerts_features_list_witness:
  "getAlerts (scripted [ok_reply (PDict [(''features'', PList [])])]) sample_builtins ''CA'' start =
     (Inr ''No active alerts for this state.'',
      \<lparr>requested = [nws_request (PStr ''https://api.weather.gov/alerts/active/area/CA'')],
       printed = []\<rparr>)
   \<and> getAlerts
        (scripted [ok_reply (PDict [(''features'', PList [sample_alert ''Flood'', sample_alert ''Wind''])])])
        sample_builtins ''CA'' start =
     (Inr (''\<newline>    Event: Flood\<newline>    Area: Boulder\<newline>    Severity: Unknown\<newline>    Description: River rising.\<newline>    Instructions: Move uphill.\<newline>    '' @
           ''\<newline>---\<newline>'' @
           ''\<newline>    Event: Wind\<newline>    Area: Boulder\<newline>    Severity: Unknown\<newline>    Description: River rising.\<newline>    Instructions: Move uphill.\<newline>    ''),
      \<lparr>requested = [nws_request (PStr ''https://api.weather.gov/alerts/active/area/CA'')],
       printed = []\<rparr>)"
proof -
  let ?two = "[sample_alert ''Flood'', sample_alert ''Wind'']"
  have ok: "list_all feature_ok ?two" by (simp add: sample_alert_def)
  have texts: "map (formatAlert sample_builtins) ?two =
      map Inr [''\<newline>    Event: Flood\<newline>    Area: Boulder\<newline>    Severity: Unknown\<newline>    Description: River rising.\<newline>    Instructions: Move uphill.\<newline>    '',
               ''\<newline>    Event: Wind\<newline>    Area: Boulder\<newline>    Severity: Unknown\<newline>    Description: River rising.\<newline>    Instructions: Move uphill.\<newline>    '']"
    by (simp add: sample_alert_text)
  have none: "getAlerts (scripted [ok_reply (PDict [(''features'', PList [])])]) sample_builtins ''CA'' start =
     (Inr ''No active alerts for this state.'',
      \<lparr>requested = [nws_request (PStr ''https://api.weather.gov/alerts/active/area/CA'')],
       printed = []\<rparr>)"
    using getAlerts_features_list [OF sample_alerts_request, of "[(''features'', PList [])]" "[]"]
    by simp
  have feats: "map_of [(''features'', PList ?two)] ''features'' = Some (PList ?two)"
    by simp
  obtain blocks where "map (formatAlert sample_builtins) ?two = map Inr blocks"
    and run: "getAlerts (scripted [ok_reply (PDict [(''features'', PList ?two)])])
        sample_builtins ''CA'' start =
      (Inr (if ?two = [] then ''No active alerts for this state.''
            else join ''\<newline>---\<newline>'' blocks),
       \<lparr>requested = [nws_request (PStr ''https://api.weather.gov/alerts/active/area/CA'')],
        printed = []\<rparr>)"
    using getAlerts_features_list [OF sample_alerts_request feats ok] by blast
  with texts have "blocks =
     [''\<newline>    Event: Flood\<newline>    Area: Boulder\<newline>    Severity: Unknown\<newline>    Description: River rising.\<newline>    Instructions: Move uphill.\<newline>    '',
      ''\<newline>    Event: Wind\<newline>    Area: Boulder\<newline>    Severity: Unknown\<newline>    Description: River rising.\<newline>    Instructions: Move uphill.\<newline>    '']"
    using map_Inr_eq [of blocks] by metis
  with run none show ?thesis by simp
qed

text \<open>
  C8. For a feature whose \<^verbatim>\<open>properties\<close> is an object, \<^verbatim>\<open>formatAlert\<close> does not
  fail and renders the five labelled lines; each of event, areaDesc, severity,
  description and instruction shows its fixed default when the field is
  absent, and the field itself (a string unchanged) when it is present.
\<close>

theorem formatAlert_defaults:
  assumes "py_getitem feature ''properties'' = Inr (PDict props)"
  shows "formatAlert B feature =
     Inr (''\<newline>    Event: '' @
            spec_field_text B (map_of props ''event'') ''Unknown'' @
          ''\<newline>    Area: '' @
            spec_field_text B (map_of props ''areaDesc'') ''Unknown'' @
          ''\<newline>    Severity: '' @
            spec_field_text B (map_of props ''severity'') ''Unknown'' @
          ''\<newline>    Description: '' @
            spec_field_text B (map_of props ''description'') ''No description available'' @
          ''\<newline>    Instructions: '' @
            spec_field_text B (map_of props ''instruction'') ''No specific instructions provided'' @
          ''\<newline>    '')"
  using assms
  by (simp add: formatAlert_def spec_field_text_eq py_str_def split: option.splits)

theorem formatAlert_defaults_witness:
  "formatAlert sample_builtins
     (PDict [(''properties'',
              PDict [(''event'', PStr ''Flood''), (''areaDesc'', PStr ''Boulder''),
                     (''description'', PStr ''River rising.''),
                     (''instruction'', PStr ''Move uphill.'')])]) =
     Inr ''\<newline>    Event: Flood\<newline>    Area: Boulder\<newline>    Severity: Unknown\<newline>    Description: River rising.\<newline>    Instructions: Move uphill.\<newline>    ''
   \<and> formatAlert sample_builtins (PDict [(''properties'', PDict [])]) =
     Inr ''\<newline>    Event: Unknown\<newline>    Area: Unknown\<newline>    Severity: Unknown\<newline>    Description: No description available\<newline>    Instructions: No specific instructions provided\<newline>    ''"
proof -
  let ?props = "[(''event'', PStr ''Flood''), (''areaDesc'', PStr ''Boulder''),
                 (''description'', PStr ''River rising.''),
                 (''instruction'', PStr ''Move uphill.'')]"
  have a: "py_getitem (PDict [(''properties'', PDict ?props)]) ''properties'' = Inr (PDict ?props)"
    by simp
  have b: "py_getitem (PDict [(''properties'', PDict [])]) ''properties'' = Inr (PDict [])"
    by simp
  show ?thesis
    using formatAlert_defaults [OF a, of sample_builtins]
      formatAlert_defaults [OF b, of sample_builtins]
    by (simp add: spec_field_text_def)
qed

text \<open>
  C2, as the code has it. \<^verbatim>\<open>getAlerts\<close> has no handler of its own, so whether an
  exception escapes depends on the shape of the adapter result: on the shapes
  of \<open>alerts_safe\<close> the handler resolves to one of the two literal strings or
  to the joined formatted blocks, and on every other result an exception
  escapes.
\<close>

theorem getAlerts_results:
  assumes "makeNwsRequest client_get B (PStr (alerts_url state)) w = (data, w1)"
  shows "\<exists>r. getAlerts client_get B state w = (r, w1)
           \<and> (if alerts_safe data
              then r = Inr ''Unable to fetch alerts or no alerts found.''
                 \<or> r = Inr ''No active alerts for this state.''
                 \<or> (\<exists>features blocks. py_getitem data ''features'' = Inr (PList features)
                       \<and> map (formatAlert B) features = map Inr blocks
                       \<and> r = Inr (join ''\<newline>---\<newline>'' blocks))
              else \<exists>e. r = Inl e)"
  using assms alerts_text_safe [of data B] alerts_text_unsafe [of data B]
  by (simp add: getAlerts_eq)

theorem getAlerts_results_witness:
  "alerts_safe (PDict [(''features'', PList [sample_alert ''Flood''])])
   \<and> fst (getAlerts (scripted [ok_reply (PDict [(''features'', PList [sample_alert ''Flood''])])])
          sample_builtins ''CA'' start) =
     Inr ''\<newline>    Event: Flood\<newline>    Area: Boulder\<newline>    Severity: Unknown\<newline>    Description: River rising.\<newline>    Instructions: Move uphill.\<newline>    ''
   \<and> \<not> alerts_safe (PDict [(''features'', PList [PStr ''Flood''])])
   \<and> (\<exists>e. fst (getAlerts (scripted [ok_reply (PDict [(''features'', PList [PStr ''Flood''])])])
          sample_builtins ''CA'' start) = Inl e)"
proof -
  let ?good = "PDict [(''features'', PList [sample_alert ''Flood''])]"
  let ?bad = "PDict [(''features'', PList [PStr ''Flood''])]"
  have safe: "alerts_safe ?good" by (simp add: alerts_safe_def sample_alert_def)
  have unsafe: "\<not> alerts_safe ?bad" by (simp add: alerts_safe_def)
  have run: "alerts_text sample_builtins ?good =
     Inr ''\<newline>    Event: Flood\<newline>    Area: Boulder\<newline>    Severity: Unknown\<newline>    Description: River rising.\<newline>    Instructions: Move uphill.\<newline>    ''"
    by (simp add: alerts_text_features sample_alert_text)
  have a: "fst (getAlerts (scripted [ok_reply ?good]) sample_builtins ''CA'' start) =
     Inr ''\<newline>    Event: Flood\<newline>    Area: Boulder\<newline>    Severity: Unknown\<newline>    Description: River rising.\<newline>    Instructions: Move uphill.\<newline>    ''"
    using getAlerts_results [OF sample_alerts_request, of ?good] safe run
    by (simp add: getAlerts_eq [OF sample_alerts_request])
  have b: "\<exists>e. fst (getAlerts (scripted [ok_reply ?bad]) sample_builtins ''CA'' start) = Inl e"
    using getAlerts_results [OF sample_alerts_request, of ?bad] unsafe
    by auto
  from a b safe unsafe show ?thesis by simp
qed

text \<open>
  C2, as stated, fails: an adapter result whose single feature has no
  \<^verbatim>\<open>properties\<close> key makes \<^verbatim>\<open>formatAlert\<close> raise KeyError, and the JSON value
  \<^verbatim>\<open>true\<close> makes the membership test raise TypeError; both escape \<^verbatim>\<open>getAlerts\<close>.
\<close>

theorem getAlerts_exception_escapes:
  "fst (getAlerts (scripted [ok_reply (PDict [(''features'', PList [PDict [(''id'', PStr ''a1'')]])])])
          sample_builtins ''CA'' start) = Inl KeyError
   \<and> fst (getAlerts (scripted [ok_reply (PBool True)]) sample_builtins ''CA'' start) =
       Inl TypeError"
  by (simp add: getAlerts_def alerts_text_def formatAlert_def fixture_defs request_defs)

section \<open>\<^verbatim>\<open>getForecast\<close>\<close>

text \<open>
  C4. When the points lookup returns "no data", \<^verbatim>\<open>getForecast\<close> returns exactly
  \<^verbatim>\<open>"Unable to fetch forecast data for this location."\<close> and the lookup is the
  only request made. When the lookup gives a forecast URL and the second
  adapter call returns "no data", it returns exactly
  \<^verbatim>\<open>"Unable to fetch detailed forecast."\<close>.
\<close>

theorem getForecast_fetch_failures:
  assumes "makeNwsRequest client_get B (PStr (points_url B latitude longitude)) w =
             (points_data, w1)"
  shows "(points_data = PNone \<longrightarrow>
            getForecast client_get B latitude longitude w =
              (Inr ''Unable to fetch forecast data for this location.'', w1)
            \<and> requested w1 =
                requested w @ [nws_request (PStr (points_url B latitude longitude))])
       \<and> (py_getitem2 points_data ''properties'' ''forecast'' = Inr forecast_url
            \<and> makeNwsRequest client_get B forecast_url w1 = (PNone, w2) \<longrightarrow>
            getForecast client_get B latitude longitude w =
              (Inr ''Unable to fetch detailed forecast.'', w2))"
  using assms
  by (auto simp: getForecast_falsy_points getForecast_second dest: makeNwsRequest_requested)

theorem getForecast_fetch_failures_witness:
  "getForecast (scripted [Inl ''timed out'']) sample_builtins
      0x4043800000000000 0xC05A400000000000 start =
    (Inr ''Unable to fetch forecast data for this location.'',
     \<lparr>requested = [nws_request (PStr ''https://api.weather.gov/points/39.0,-105.0'')],
      printed = [''Error making request to https://api.weather.gov/points/39.0,-105.0: timed out'']\<rparr>)
   \<and> getForecast (scripted [ok_reply sample_points, status_reply 503]) sample_builtins
      0x4043800000000000 0xC05A400000000000 start =
    (Inr ''Unable to fetch detailed forecast.'',
     \<lparr>requested = [nws_request (PStr ''https://api.weather.gov/points/39.0,-105.0''),
                   nws_request (PStr ''https://api.weather.gov/gridpoints/BOU/1,2/forecast'')],
      printed = [''Error making request to https://api.weather.gov/gridpoints/BOU/1,2/forecast: bad status'']\<rparr>)"
proof -
  let ?w1 = "\<lparr>requested = [nws_request (PStr ''https://api.weather.gov/points/39.0,-105.0'')],
      printed = [''Error making request to https://api.weather.gov/points/39.0,-105.0: timed out'']\<rparr>"
  let ?w2 = "\<lparr>requested = [nws_request (PStr ''https://api.weather.gov/points/39.0,-105.0''),
                   nws_request (PStr ''https://api.weather.gov/gridpoints/BOU/1,2/forecast'')],
      printed = [''Error making request to https://api.weather.gov/gridpoints/BOU/1,2/forecast: bad status'']\<rparr>"
  have first: "makeNwsRequest (scripted [Inl ''timed out'']) sample_builtins
      (PStr (points_url sample_builtins 0x4043800000000000 0xC05A400000000000)) start =
      (PNone, ?w1)"
    by (simp add: fixture_defs request_defs)
  have second: "makeNwsRequest (scripted [ok_reply sample_points, status_reply 503])
      sample_builtins (PStr ''https://api.weather.gov/gridpoints/BOU/1,2/forecast'')
      \<lparr>requested = [nws_request (PStr ''https://api.weather.gov/points/39.0,-105.0'')],
       printed = []\<rparr> = (PNone, ?w2)"
    by (simp add: makeNwsRequest_def scripted_def status_reply_def raise_for_status_def
        py_str_def)
  show ?thesis
    using getForecast_fetch_failures [OF first]
      getForecast_fetch_failures
        [where forecast_url = "PStr ''https://api.weather.gov/gridpoints/BOU/1,2/forecast''"
           and ?w2.0 = ?w2,
         OF sample_points_request [where rest = "[status_reply 503]"]]
      sample_points_forecast second
    by simp
qed

text \<open>
  C10. A points lookup that succeeds with the empty JSON object is treated as
  a failed fetch: \<^verbatim>\<open>getForecast\<close> returns
  \<^verbatim>\<open>"Unable to fetch forecast data for this location."\<close>, the lookup is the only
  request made, and nothing is printed.
\<close>

theorem getForecast_empty_object:
  assumes "client_get (length (requested w))
             (nws_request (PStr (points_url B latitude longitude))) = Inr r"
    and "200 \<le> status_code r" and "status_code r \<le> 299"
    and "json r = Inr (PDict [])"
  shows "getForecast client_get B latitude longitude w =
           (Inr ''Unable to fetch forecast data for this location.'',
            w\<lparr>requested :=
                requested w @ [nws_request (PStr (points_url B latitude longitude))]\<rparr>)"
proof -
  from assms have "makeNwsRequest client_get B (PStr (points_url B latitude longitude)) w =
      (PDict [],
       w\<lparr>requested :=
           requested w @ [nws_request (PStr (points_url B latitude longitude))]\<rparr>)"
    by (simp add: makeNwsRequest_def raise_for_status_def)
  then show ?thesis by (simp add: getForecast_falsy_points)
qed

theorem getForecast_empty_object_witness:
  "getForecast (scripted [ok_reply (PDict []), ok_reply (sample_forecast [])]) sample_builtins
      0x4043800000000000 0xC05A400000000000 start =
    (Inr ''Unable to fetch forecast data for this location.'',
     \<lparr>requested = [nws_request (PStr ''https://api.weather.gov/points/39.0,-105.0'')],
      printed = []\<rparr>)"
  using getForecast_empty_object
    [of "scripted [ok_reply (PDict []), ok_reply (sample_forecast [])]" start sample_builtins
        "0x4043800000000000" "0xC05A400000000000"
        "\<lparr>status_code = 200, status_error = [], json = Inr (PDict [])\<rparr>"]
  by (simp add: fixture_defs request_defs)

text \<open>
  C3. After a points lookup that returned a true value, a failing access
  \<^verbatim>\<open>points_data["properties"]["forecast"]\<close> (KeyError when either key is missing,
  TypeError when a level is not an object) escapes \<^verbatim>\<open>getForecast\<close> as that
  exception, not as a fallback string; likewise a failing access
  \<^verbatim>\<open>forecast_data["properties"]["periods"]\<close> on the second response.
\<close>

theorem getForecast_unguarded_access:
  assumes "makeNwsRequest client_get B (PStr (points_url B latitude longitude)) w =
             (points_data, w1)"
    and "truthy points_data"
  shows "(py_getitem2 points_data ''properties'' ''forecast'' = Inl e \<longrightarrow>
            getForecast client_get B latitude longitude w = (Inl e, w1))
       \<and> (py_getitem2 points_data ''properties'' ''forecast'' = Inr forecast_url
            \<and> makeNwsRequest client_get B forecast_url w1 = (forecast_data, w2)
            \<and> truthy forecast_data
            \<and> py_getitem2 forecast_data ''properties'' ''periods'' = Inl e \<longrightarrow>
            getForecast client_get B latitude longitude w = (Inl e, w2))"
  using assms
  by (auto simp: getForecast_points_access getForecast_second forecast_text_def)

theorem getForecast_unguarded_access_witness:
  "getForecast (scripted [ok_reply (PDict [(''properties'', PDict [(''gridId'', PStr ''BOU'')])])])
      sample_builtins 0x4043800000000000 0xC05A400000000000 start =
    (Inl KeyError,
     \<lparr>requested = [nws_request (PStr ''https://api.weather.gov/points/39.0,-105.0'')],
      printed = []\<rparr>)
   \<and> getForecast
      (scripted [ok_reply sample_points,
                 ok_reply (PDict [(''properties'', PDict [(''updated'', PStr ''today'')])])])
      sample_builtins 0x4043800000000000 0xC05A400000000000 start =
    (Inl KeyError,
     \<lparr>requested = [nws_request (PStr ''https://api.weather.gov/points/39.0,-105.0''),
                   nws_request (PStr ''https://api.weather.gov/gridpoints/BOU/1,2/forecast'')],
      printed = []\<rparr>)"
proof -
  let ?p = "PDict [(''properties'', PDict [(''gridId'', PStr ''BOU'')])]"
  let ?f = "PDict [(''properties'', PDict [(''updated'', PStr ''today'')])]"
  let ?w1 = "\<lparr>requested = [nws_request (PStr ''https://api.weather.gov/points/39.0,-105.0'')],
      printed = []\<rparr>"
  let ?w2 = "\<lparr>requested = [nws_request (PStr ''https://api.weather.gov/points/39.0,-105.0''),
                   nws_request (PStr ''https://api.weather.gov/gridpoints/BOU/1,2/forecast'')],
      printed = []\<rparr>"
  have first: "makeNwsRequest (scripted [ok_reply ?p]) sample_builtins
      (PStr (points_url sample_builtins 0x4043800000000000 0xC05A400000000000)) start =
      (?p, ?w1)"
    by (simp add: fixture_defs request_defs)
  have a: "getForecast (scripted [ok_reply ?p]) sample_builtins
      0x4043800000000000 0xC05A400000000000 start = (Inl KeyError, ?w1)"
    using getForecast_unguarded_access [where e = KeyError, OF first]
    by (simp add: py_getitem2_def)
  have tp: "truthy sample_points" by (simp add: sample_points_def)
  have b: "getForecast (scripted [ok_reply sample_points, ok_reply ?f]) sample_builtins
      0x4043800000000000 0xC05A400000000000 start = (Inl KeyError, ?w2)"
    using getForecast_unguarded_access
        [where e = KeyError
           and forecast_url = "PStr ''https://api.weather.gov/gridpoints/BOU/1,2/forecast''"
           and forecast_data = ?f and ?w2.0 = ?w2,
         OF sample_points_request [where rest = "[ok_reply ?f]"] tp]
      sample_points_forecast sample_forecast_request [of "ok_reply sample_points" ?f]
    by (simp add: py_getitem2_def)
  from a b show ?thesis by simp
qed

text \<open>
  C5. When both requests succeed and \<^verbatim>\<open>properties.periods\<close> of the second
  response is a list of \<open>n\<close> periods, \<^verbatim>\<open>getForecast\<close> formats the first
  \<open>min n 5\<close> of them, in their order, and returns the blocks joined by
  \<^verbatim>\<open>"\n---\n"\<close>.
\<close>

theorem getForecast_first_five:
  assumes "makeNwsRequest client_get B (PStr (points_url B latitude longitude)) w =
             (points_data, w1)"
    and "py_getitem2 points_data ''properties'' ''forecast'' = Inr forecast_url"
    and "makeNwsRequest client_get B forecast_url w1 = (forecast_data, w2)"
    and "py_getitem2 forecast_data ''properties'' ''periods'' = Inr (PList periods)"
    and "list_all period_ok (take 5 periods)"
  shows "\<exists>blocks. length blocks = min (length periods) 5
           \<and> map (formatPeriod B) (take 5 periods) = map Inr blocks
           \<and> getForecast client_get B latitude longitude w =
               (Inr (join ''\<newline>---\<newline>'' blocks), w2)"
proof -
  from assms(5) have "\<forall>p\<in>set (take 5 periods). \<exists>s. formatPeriod B p = Inr s"
    by (simp add: list_all_iff formatPeriod_ok)
  then obtain blocks where blocks: "map (formatPeriod B) (take 5 periods) = map Inr blocks"
    using all_Inr_blocks by blast
  then have "length (map (formatPeriod B) (take 5 periods)) =
             length (map Inr blocks :: (py_error + string) list)"
    by simp
  then have len: "length blocks = min (length periods) 5" by simp
  from blocks have "collect (formatPeriod B) (take 5 periods) [] = Inr blocks"
    using collect_all_Inr [of "formatPeriod B" "take 5 periods" blocks "[]"] by simp
  moreover from assms(4) have "truthy forecast_data" by (rule py_getitem2_truthy)
  ultimately have "getForecast client_get B latitude longitude w =
               (Inr (join ''\<newline>---\<newline>'' blocks), w2)"
    using assms(1-4) by (simp add: getForecast_second forecast_text_periods)
  with blocks len show ?thesis by blast
qed

theorem getForecast_first_five_witness:
  "getForecast
      (scripted [ok_reply sample_points,
                 ok_reply (sample_forecast
                   [sample_period ''Mon'' 72, sample_period ''Tue'' 72, sample_period ''Wed'' 72,
                    sample_period ''Thu'' 72, sample_period ''Fri'' 72, sample_period ''Sat'' 72,
                    sample_period ''Sun'' 72])])
      sample_builtins 0x4043800000000000 0xC05A400000000000 start =
    (Inr (''\<newline>            Mon:\<newline>            Temperature: 72'' @ [CHR 0xC2, CHR 0xB0] @ ''F\<newline>            Wind: 5 mph NW\<newline>            Forecast: Clear.\<newline>            '' @
          ''\<newline>---\<newline>'' @
          ''\<newline>            Tue:\<newline>            Temperature: 72'' @ [CHR 0xC2, CHR 0xB0] @ ''F\<newline>            Wind: 5 mph NW\<newline>            Forecast: Clear.\<newline>            '' @
          ''\<newline>---\<newline>'' @
          ''\<newline>            Wed:\<newline>            Temperature: 72'' @ [CHR 0xC2, CHR 0xB0] @ ''F\<newline>            Wind: 5 mph NW\<newline>            Forecast: Clear.\<newline>            '' @
          ''\<newline>---\<newline>'' @
          ''\<newline>            Thu:\<newline>            Temperature: 72'' @ [CHR 0xC2, CHR 0xB0] @ ''F\<newline>            Wind: 5 mph NW\<newline>            Forecast: Clear.\<newline>            '' @
          ''\<newline>---\<newline>'' @
          ''\<newline>            Fri:\<newline>            Temperature: 72'' @ [CHR 0xC2, CHR 0xB0] @ ''F\<newline>            Wind: 5 mph NW\<newline>            Forecast: Clear.\<newline>            ''),
     \<lparr>requested = [nws_request (PStr ''https://api.weather.gov/points/39.0,-105.0''),
                   nws_request (PStr ''https://api.weather.gov/gridpoints/BOU/1,2/forecast'')],
      printed = []\<rparr>)"
proof -
  let ?week = "[sample_period ''Mon'' 72, sample_period ''Tue'' 72, sample_period ''Wed'' 72,
                sample_period ''Thu'' 72, sample_period ''Fri'' 72, sample_period ''Sat'' 72,
                sample_period ''Sun'' 72]"
  let ?texts = "[''\<newline>            Mon:\<newline>            Temperature: 72'' @ [CHR 0xC2, CHR 0xB0] @ ''F\<newline>            Wind: 5 mph NW\<newline>            Forecast: Clear.\<newline>            '',
      ''\<newline>            Tue:\<newline>            Temperature: 72'' @ [CHR 0xC2, CHR 0xB0] @ ''F\<newline>            Wind: 5 mph NW\<newline>            Forecast: Clear.\<newline>            '',
      ''\<newline>            Wed:\<newline>            Temperature: 72'' @ [CHR 0xC2, CHR 0xB0] @ ''F\<newline>            Wind: 5 mph NW\<newline>            Forecast: Clear.\<newline>            '',
      ''\<newline>            Thu:\<newline>            Temperature: 72'' @ [CHR 0xC2, CHR 0xB0] @ ''F\<newline>            Wind: 5 mph NW\<newline>            Forecast: Clear.\<newline>            '',
      ''\<newline>            Fri:\<newline>            Temperature: 72'' @ [CHR 0xC2, CHR 0xB0] @ ''F\<newline>            Wind: 5 mph NW\<newline>            Forecast: Clear.\<newline>            '']"
  have ok: "list_all period_ok (take 5 ?week)"
    by (simp add: sample_period_def period_keys_def)
  have texts: "map (formatPeriod sample_builtins) (take 5 ?week) = map Inr ?texts"
    by (simp add: sample_period_text)
  obtain blocks where "map (formatPeriod sample_builtins) (take 5 ?week) = map Inr blocks"
    and run: "getForecast (scripted [ok_reply sample_points, ok_reply (sample_forecast ?week)])
        sample_builtins 0x4043800000000000 0xC05A400000000000 start =
      (Inr (join ''\<newline>---\<newline>'' blocks),
       \<lparr>requested = [nws_request (PStr ''https://api.weather.gov/points/39.0,-105.0''),
                     nws_request (PStr ''https://api.weather.gov/gridpoints/BOU/1,2/forecast'')],
        printed = []\<rparr>)"
    using getForecast_first_five [OF sample_points_request sample_points_forecast
        sample_forecast_request sample_forecast_periods ok]
    by blast
  with texts have "blocks = ?texts"
    using map_Inr_eq [of blocks] by metis
  with run show ?thesis by simp
qed

text \<open>
  C9. When both requests succeed and \<^verbatim>\<open>properties.periods\<close> of the second
  response is the empty list, \<^verbatim>\<open>getForecast\<close> returns the empty string, not a
  fallback message.
\<close>

theorem getForecast_no_periods:
  assumes "makeNwsRequest client_get B (PStr (points_url B latitude longitude)) w =
             (points_data, w1)"
    and "py_getitem2 points_data ''properties'' ''forecast'' = Inr forecast_url"
    and "makeNwsRequest client_get B forecast_url w1 = (forecast_data, w2)"
    and "py_getitem2 forecast_data ''properties'' ''periods'' = Inr (PList [])"
  shows "getForecast client_get B latitude longitude w = (Inr [], w2)"
proof -
  from assms(4) have "truthy forecast_data" by (rule py_getitem2_truthy)
  with assms show ?thesis by (simp add: getForecast_second forecast_text_periods)
qed

theorem getForecast_no_periods_witness:
  "getForecast (scripted [ok_reply sample_points, ok_reply (sample_forecast [])]) sample_builtins
      0x4043800000000000 0xC05A400000000000 start =
    (Inr [],
     \<lparr>requested = [nws_request (PStr ''https://api.weather.gov/points/39.0,-105.0''),
                   nws_request (PStr ''https://api.weather.gov/gridpoints/BOU/1,2/forecast'')],
      printed = []\<rparr>)"
  using getForecast_no_periods [OF sample_points_request sample_points_forecast
      sample_forecast_request sample_forecast_periods]
  by simp

end
